theory Spec2Isabelle
  imports Complex_Main "HOL-Library.Char_ord" "HOL-Library.List_Lexorder" "HOL-Library.Multiset"
begin

section \<open>Career Compass: the matching and scoring engine of \<^verbatim>\<open>app.py\<close>\<close>

text \<open>
  The script loads a job catalog from a CSV file, derives the vocabulary of skills, scans an
  uploaded resume for vocabulary terms, and on request scores every catalog row against the
  user's profile and shows the three best rows.

  Modelling decisions, each following the source:
  \<^item> A Python \<^verbatim>\<open>str\<close> is a \<open>string\<close>; a character stands for a code point below 256.
  \<^item> A score is a Python float. It is modelled by an exact rational: rounding of the
    division and of the additions is not modelled.
  \<^item> An empty field of the CSV file is read as a missing value (NaN), which is not a string.
    The two cells on which the script calls string operations, \<^verbatim>\<open>Skills\<close> and \<^verbatim>\<open>Interests\<close>,
    are therefore a text or missing: \<^verbatim>\<open>",".join\<close> at line 21 raises \<^verbatim>\<open>TypeError\<close> on a missing
    \<^verbatim>\<open>Skills\<close> cell, and \<^verbatim>\<open>.split\<close> at lines 97, 102 and 142 raises \<^verbatim>\<open>AttributeError\<close> on a
    missing cell.
  \<^item> \<^verbatim>\<open>df.sort_values(by='Final_Score', ascending=False)\<close> is a library routine. The analysis
    takes it as an argument, and \<open>stable_descending\<close> is the routine as this call runs it:
    pandas reverses the column, takes the argsort of it, and reverses the result, and the
    argsort of a short column is an insertion sort, which keeps equal scores in place. The
    model uses this sort for a catalog of any length. pandas does not document its default
    kind as stable, so for a long catalog the order among equal scores rests on this model
    of the library, not on a documented guarantee.
\<close>

subsection \<open>Python string primitives\<close>

text \<open>The code points below 256 that \<^verbatim>\<open>str.strip()\<close> removes.\<close>

definition is_space :: "char \<Rightarrow> bool" where
  "is_space c \<longleftrightarrow>
     c \<in> set [CHR 0x09, CHR 0x0A, CHR 0x0B, CHR 0x0C, CHR 0x0D, CHR 0x1C, CHR 0x1D,
              CHR 0x1E, CHR 0x1F, CHR 0x20, CHR 0x85, CHR 0xA0]"

text \<open>\<^verbatim>\<open>s.strip()\<close>\<close>

definition strip :: "string \<Rightarrow> string" where
  "strip s = rev (dropWhile is_space (rev (dropWhile is_space s)))"

text \<open>\<^verbatim>\<open>s.split(',')\<close>: one token more than there are commas, so never an empty list.\<close>

fun split_comma :: "string \<Rightarrow> string list" where
  "split_comma [] = [[]]"
| "split_comma (c # cs) =
     (if c = CHR '','' then [] # split_comma cs
      else (case split_comma cs of
              [] \<Rightarrow> [[c]]
            | t # ts \<Rightarrow> (c # t) # ts))"

text \<open>\<^verbatim>\<open>",".join(xs)\<close>\<close>

fun join_comma :: "string list \<Rightarrow> string" where
  "join_comma [] = []"
| "join_comma [x] = x"
| "join_comma (x # y # ys) = x @ CHR '','' # join_comma (y # ys)"

text \<open>\<^verbatim>\<open>s.replace('"', '')\<close>\<close>

definition remove_quotes :: "string \<Rightarrow> string" where
  "remove_quotes s = filter (\<lambda>c. c \<noteq> CHR 0x22) s"

text \<open>\<^verbatim>\<open>s.lower()\<close> on code points below 256: the letters A-Z and the upper-case letters of
  Latin-1 move up by 32, every other character stays.\<close>

definition lower_char :: "char \<Rightarrow> char" where
  "lower_char c =
     (let n = (of_char c :: nat)
      in if (65 \<le> n \<and> n \<le> 90) \<or> (192 \<le> n \<and> n \<le> 222 \<and> n \<noteq> 215)
         then char_of (n + 32) else c)"

definition lower :: "string \<Rightarrow> string" where
  "lower s = map lower_char s"

text \<open>\<^verbatim>\<open>needle in hay\<close> on strings: \<open>needle\<close> starts at some position of \<open>hay\<close>.\<close>

fun starts_with :: "string \<Rightarrow> string \<Rightarrow> bool" where
  "starts_with [] hay = True"
| "starts_with (c # cs) [] = False"
| "starts_with (c # cs) (h # hs) = (c = h \<and> starts_with cs hs)"

fun str_contains :: "string \<Rightarrow> string \<Rightarrow> bool" where
  "str_contains needle [] = (needle = [])"
| "str_contains needle (h # hs) = (starts_with needle (h # hs) \<or> str_contains needle hs)"

subsection \<open>The catalog, the user's profile, errors\<close>

text \<open>A cell that \<^verbatim>\<open>pd.read_csv\<close> read from a text column: the text of the field, or NaN for
  an empty field.\<close>

datatype cell = Text string | NaN

text \<open>One row of \<^verbatim>\<open>career_data.csv\<close>, as \<^verbatim>\<open>pd.read_csv\<close> returns it. \<^verbatim>\<open>Skills\<close> and \<^verbatim>\<open>Interests\<close>
  are the cells that lines 21 to 143 operate on as strings. Of the other cells these lines
  only compare \<^verbatim>\<open>Min_Math\<close>, \<^verbatim>\<open>Min_Code\<close> and \<^verbatim>\<open>Personality\<close>; a comparison with a missing cell
  raises nothing and is false, so such a cell is not given a case of its own: it behaves as
  a minimum that no score is below, or as a personality that no user has.\<close>

record row =
  Job_Title :: string
  Skills :: cell
  Interests :: cell
  Min_Math :: int
  Min_Code :: int
  Personality :: string
  Salary_Range :: string
  Trend_Growth :: string

text \<open>The data frame \<^verbatim>\<open>df\<close>: the rows of the file and the column \<^verbatim>\<open>Final_Score\<close>, which
  does not exist until an analysis assigns it.\<close>

record dataframe =
  rows :: "row list"
  Final_Score :: "rat list option"

text \<open>\<^verbatim>\<open>load_data()\<close>: the rows read from the file, no score column.\<close>

definition load_data :: "row list \<Rightarrow> dataframe" where
  "load_data csv_rows = \<lparr>rows = csv_rows, Final_Score = None\<rparr>"

text \<open>The values of the widgets when the button is pressed.\<close>

record user =
  selected_skills :: "string list"
  selected_interests :: "string list"
  math_score :: int
  code_score :: int
  personality :: string

text \<open>\<open>EmptySelectionError\<close> is the branch that shows
  \<^verbatim>\<open>st.error("Please select at least one skill to proceed!")\<close>; the others are the Python
  exceptions the modelled statements can raise.\<close>

datatype error =
  EmptySelectionError | ZeroDivisionError | ValueError | KeyError | AttributeError | TypeError

text \<open>\<^verbatim>\<open>x.split(',')\<close> on a cell: a missing cell is a float, which has no \<^verbatim>\<open>split\<close>.\<close>

definition split_cell :: "cell \<Rightarrow> error + string list" where
  "split_cell c = (case c of NaN \<Rightarrow> Inl AttributeError | Text s \<Rightarrow> Inr (split_comma s))"

text \<open>The items of a column as \<^verbatim>\<open>",".join\<close> takes them: it raises \<^verbatim>\<open>TypeError\<close> on an item
  that is not a string.\<close>

fun str_items :: "cell list \<Rightarrow> error + string list" where
  "str_items [] = Inr []"
| "str_items (NaN # cs) = Inl TypeError"
| "str_items (Text s # cs) =
     (case str_items cs of Inl e \<Rightarrow> Inl e | Inr ss \<Rightarrow> Inr (s # ss))"

subsection \<open>The skill vocabulary (lines 21-22)\<close>

text \<open>
  \<^verbatim>\<open>all_skills = set(",".join(df['Skills']).replace('"', '').split(','))\<close>
  \<^verbatim>\<open>all_skills = sorted([s.strip() for s in all_skills if s.strip()])\<close>

  The set removes repeated tokens before they are stripped. Its iteration order does not
  matter, because the stripped tokens are sorted afterwards.
\<close>

definition all_skills :: "dataframe \<Rightarrow> error + string list" where
  "all_skills df =
     (case str_items (map Skills (rows df)) of
        Inl e \<Rightarrow> Inl e
      | Inr texts \<Rightarrow>
          (let toks = remdups (split_comma (remove_quotes (join_comma texts)))
           in Inr (sort (map strip (filter (\<lambda>s. strip s \<noteq> []) toks)))))"

subsection \<open>Keyword matching against the resume (lines 43-46)\<close>

fun match_loop :: "string \<Rightarrow> string list \<Rightarrow> string list \<Rightarrow> string list" where
  "match_loop resume_text_lower [] extracted_skills = extracted_skills"
| "match_loop resume_text_lower (skill # rest) extracted_skills =
     (if str_contains (lower skill) resume_text_lower
      then match_loop resume_text_lower rest (extracted_skills @ [skill])
      else match_loop resume_text_lower rest extracted_skills)"

definition match_skills :: "string \<Rightarrow> string list \<Rightarrow> string list" where
  "match_skills resume_text vocabulary =
     (let resume_text_lower = lower resume_text
      in match_loop resume_text_lower vocabulary [])"

subsection \<open>Scoring one row (lines 96-117)\<close>

text \<open>A. Skill match. Line 97 raises on a missing cell; lines 98 and 99 work on the list it
  returns.\<close>

definition job_skills :: "row \<Rightarrow> error + string list" where
  "job_skills r =
     (case split_cell (Skills r) of Inl e \<Rightarrow> Inl e | Inr ts \<Rightarrow> Inr (map strip ts))"

definition common_skills :: "user \<Rightarrow> string list \<Rightarrow> string set" where
  "common_skills u js = set (selected_skills u) \<inter> set js"

definition skill_match_pct :: "user \<Rightarrow> row \<Rightarrow> error + rat" where
  "skill_match_pct u r =
     (case job_skills r of
        Inl e \<Rightarrow> Inl e
      | Inr js \<Rightarrow>
          (if length js = 0 then Inl ZeroDivisionError
           else Inr (of_nat (card (common_skills u js)) / of_nat (length js) * 100)))"

text \<open>B. Interest match. Line 102 raises on a missing cell.\<close>

definition job_interests :: "row \<Rightarrow> error + string list" where
  "job_interests r =
     (case split_cell (Interests r) of Inl e \<Rightarrow> Inl e | Inr ts \<Rightarrow> Inr (map strip ts))"

definition common_interests :: "user \<Rightarrow> string list \<Rightarrow> string set" where
  "common_interests u ji = set (selected_interests u) \<inter> set ji"

definition interest_bonus :: "user \<Rightarrow> row \<Rightarrow> error + int" where
  "interest_bonus u r =
     (case job_interests r of
        Inl e \<Rightarrow> Inl e
      | Inr ji \<Rightarrow> Inr (int (card (common_interests u ji)) * 15))"

text \<open>C and D. The total before the personality bonus: skill percentage plus interest bonus,
  less 10 for each academic score below the row's minimum.\<close>

definition score_after_penalties :: "user \<Rightarrow> row \<Rightarrow> error + rat" where
  "score_after_penalties u r =
     (case skill_match_pct u r of
        Inl e \<Rightarrow> Inl e
      | Inr pct \<Rightarrow>
          (case interest_bonus u r of
             Inl e \<Rightarrow> Inl e
           | Inr bonus \<Rightarrow>
               (let total_score = pct + of_int bonus;
                    total_score =
                      (if math_score u < Min_Math r then total_score - 10 else total_score);
                    total_score =
                      (if code_score u < Min_Code r then total_score - 10 else total_score)
                in Inr total_score)))"

text \<open>E. The personality bonus.\<close>

definition total_score :: "user \<Rightarrow> row \<Rightarrow> error + rat" where
  "total_score u r =
     (case score_after_penalties u r of
        Inl e \<Rightarrow> Inl e
      | Inr t \<Rightarrow>
          Inr (if personality u \<noteq> ''Ambivert/Any'' \<and> personality u = Personality r
               then t + 5 else t))"

text \<open>\<^verbatim>\<open>final_score = max(0, min(100, total_score))\<close>\<close>

definition final_score :: "user \<Rightarrow> row \<Rightarrow> error + rat" where
  "final_score u r =
     (case total_score u r of
        Inl e \<Rightarrow> Inl e
      | Inr t \<Rightarrow> Inr (max 0 (min 100 t)))"

text \<open>The missing skills shown for a result: line 143 on the list of line 142, and the two
  lines on a row.\<close>

definition missing :: "user \<Rightarrow> string list \<Rightarrow> string list" where
  "missing u js = filter (\<lambda>s. s \<notin> set (selected_skills u)) js"

definition missing_skills :: "user \<Rightarrow> row \<Rightarrow> error + string list" where
  "missing_skills u r =
     (case job_skills r of Inl e \<Rightarrow> Inl e | Inr js \<Rightarrow> Inr (missing u js))"

subsection \<open>The analysis (lines 89-121)\<close>

text \<open>The loop over \<^verbatim>\<open>df.iterrows()\<close>, appending to \<^verbatim>\<open>final_results\<close>.\<close>

fun score_loop :: "user \<Rightarrow> row list \<Rightarrow> rat list \<Rightarrow> error + rat list" where
  "score_loop u [] final_results = Inr final_results"
| "score_loop u (r # rs) final_results =
     (case final_score u r of
        Inl e \<Rightarrow> Inl e
      | Inr s \<Rightarrow> score_loop u rs (final_results @ [s]))"

text \<open>\<^verbatim>\<open>df['Final_Score'] = final_results\<close>: pandas refuses a list whose length is not the
  number of rows.\<close>

definition assign_Final_Score :: "dataframe \<Rightarrow> rat list \<Rightarrow> error + dataframe" where
  "assign_Final_Score df final_results =
     (if length final_results \<noteq> length (rows df) then Inl ValueError
      else Inr (df\<lparr>Final_Score := Some final_results\<rparr>))"

text \<open>A sorted frame is the list of its rows, each with its score. The library's
  \<^verbatim>\<open>sort_values(by='Final_Score', ascending=False)\<close> is the argument \<open>srt\<close>.\<close>

type_synonym scored = "row \<times> rat"
type_synonym sorter = "scored list \<Rightarrow> scored list"

definition sort_values :: "sorter \<Rightarrow> dataframe \<Rightarrow> error + scored list" where
  "sort_values srt df =
     (case Final_Score df of
        None \<Rightarrow> Inl KeyError
      | Some scores \<Rightarrow> Inr (srt (zip (rows df) scores)))"

text \<open>\<^verbatim>\<open>.head(3)\<close>\<close>

definition head3 :: "'a list \<Rightarrow> 'a list" where
  "head3 xs = take 3 xs"

text \<open>Pressing the button: the new value of \<^verbatim>\<open>df\<close>, and either the error shown or raised, or
  \<^verbatim>\<open>top_jobs\<close>.\<close>

definition analyze :: "sorter \<Rightarrow> user \<Rightarrow> dataframe \<Rightarrow> dataframe \<times> (error + scored list)" where
  "analyze srt u df =
     (if selected_skills u = [] then (df, Inl EmptySelectionError)
      else (case score_loop u (rows df) [] of
              Inl e \<Rightarrow> (df, Inl e)
            | Inr final_results \<Rightarrow>
                (case assign_Final_Score df final_results of
                   Inl e \<Rightarrow> (df, Inl e)
                 | Inr df' \<Rightarrow>
                     (case sort_values srt df' of
                        Inl e \<Rightarrow> (df', Inl e)
                      | Inr sorted_df \<Rightarrow> (df', Inr (head3 sorted_df))))))"

text \<open>The library's sort as line 121 calls it: the frame is reversed, sorted in ascending
  order of score by an insertion sort (\<open>sort_key\<close>), and reversed again.\<close>

definition stable_descending :: sorter where
  "stable_descending xs = rev (sort_key snd (rev xs))"

text \<open>A row on which the string operations of the scoring do not raise.\<close>

definition no_missing_cell :: "row \<Rightarrow> bool" where
  "no_missing_cell r \<longleftrightarrow> Skills r \<noteq> NaN \<and> Interests r \<noteq> NaN"

subsection \<open>The score as the specification words it\<close>

text \<open>The specification's required skills and interests of a job are sets: here the sets of
  the tokens of the two cells.\<close>

definition required_skills :: "row \<Rightarrow> string set" where
  "required_skills r = (case job_skills r of Inl e \<Rightarrow> {} | Inr js \<Rightarrow> set js)"

definition required_interests :: "row \<Rightarrow> string set" where
  "required_interests r = (case job_interests r of Inl e \<Rightarrow> {} | Inr ji \<Rightarrow> set ji)"

text \<open>The specification's formula for the final score. Its skill percentage divides by the
  number of required skills, the size of a set.\<close>

definition spec_final_score :: "user \<Rightarrow> row \<Rightarrow> rat" where
  "spec_final_score u r =
     max 0 (min 100
       (of_nat (card (set (selected_skills u) \<inter> required_skills r))
          / of_nat (card (required_skills r)) * 100
        + 15 * of_nat (card (set (selected_interests u) \<inter> required_interests r))
        - 10 * (if math_score u < Min_Math r then 1 else 0)
        - 10 * (if code_score u < Min_Code r then 1 else 0)
        + 5 * (if Personality r \<noteq> ''Ambivert/Any'' \<and> personality u = Personality r
               then 1 else 0)))"

subsection \<open>Example rows and profiles\<close>

text \<open>\<open>job_a\<close> and \<open>user_a\<close> are the worked example of the specification.\<close>

definition job_a :: row where
  "job_a = \<lparr>Job_Title = ''Job A'', Skills = Text ''Python, SQL'', Interests = Text ''Data'',
            Min_Math = 50, Min_Code = 50, Personality = ''Introvert'',
            Salary_Range = ''6-10 LPA'', Trend_Growth = ''High''\<rparr>"

definition job_b :: row where
  "job_b = \<lparr>Job_Title = ''Job B'', Skills = Text ''Python, Excel'',
            Interests = Text ''Data, Business'', Min_Math = 40, Min_Code = 30,
            Personality = ''Introvert'', Salary_Range = ''4-8 LPA'',
            Trend_Growth = ''Stable''\<rparr>"

definition job_c :: row where
  "job_c = \<lparr>Job_Title = ''Job C'', Skills = Text ''React, CSS, Python, APIs'',
            Interests = Text ''Web, Data'', Min_Math = 70, Min_Code = 50,
            Personality = ''Extrovert'', Salary_Range = ''5-9 LPA'',
            Trend_Growth = ''Very High''\<rparr>"

text \<open>A row that lists one skill twice.\<close>

definition dup_job :: row where
  "dup_job = \<lparr>Job_Title = ''Job D'', Skills = Text ''Python, Python, SQL'',
            Interests = Text ''Web'', Min_Math = 50, Min_Code = 50,
            Personality = ''Extrovert'', Salary_Range = ''6-10 LPA'',
            Trend_Growth = ''High''\<rparr>"

text \<open>A row whose skills cell is present and holds no skill.\<close>

definition blank_job :: row where
  "blank_job = \<lparr>Job_Title = ''Job E'', Skills = Text '' '', Interests = Text ''People'',
            Min_Math = 0, Min_Code = 0, Personality = ''Ambivert/Any'',
            Salary_Range = ''3-5 LPA'', Trend_Growth = ''Stable''\<rparr>"

text \<open>A row whose skills field is empty in the file, and one whose interests field is.\<close>

definition no_skills_job :: row where
  "no_skills_job = \<lparr>Job_Title = ''Job F'', Skills = NaN, Interests = Text ''People'',
            Min_Math = 0, Min_Code = 0, Personality = ''Extrovert'',
            Salary_Range = ''3-5 LPA'', Trend_Growth = ''Stable''\<rparr>"

definition no_interests_job :: row where
  "no_interests_job = \<lparr>Job_Title = ''Job G'', Skills = Text ''Python, SQL'', Interests = NaN,
            Min_Math = 50, Min_Code = 50, Personality = ''Introvert'',
            Salary_Range = ''6-10 LPA'', Trend_Growth = ''High''\<rparr>"

text \<open>A row whose skills cell holds a quoted token: the cell \<^verbatim>\<open>"Python", SQL\<close>.\<close>

definition quoted_job :: row where
  "quoted_job = \<lparr>Job_Title = ''Job Q'', Skills = Text ''\"Python\", SQL'',
            Interests = Text ''Data'', Min_Math = 50, Min_Code = 50,
            Personality = ''Introvert'', Salary_Range = ''6-10 LPA'',
            Trend_Growth = ''High''\<rparr>"

definition user_a :: user where
  "user_a = \<lparr>selected_skills = [''Python''], selected_interests = [''Data''],
             math_score = 60, code_score = 60, personality = ''Introvert''\<rparr>"

definition user_two :: user where
  "user_two = \<lparr>selected_skills = [''Python'', ''SQL''], selected_interests = [''Data''],
             math_score = 60, code_score = 60, personality = ''Ambivert/Any''\<rparr>"

definition user_none :: user where
  "user_none = \<lparr>selected_skills = [], selected_interests = [''AI'', ''Data''],
             math_score = 75, code_score = 70, personality = ''Introvert''\<rparr>"

text \<open>A profile whose one selected skill is the empty string, which the multiselect never
  offers.\<close>

definition user_blank :: user where
  "user_blank = \<lparr>selected_skills = [''''], selected_interests = [''Data''],
             math_score = 60, code_score = 60, personality = ''Introvert''\<rparr>"

section \<open>Properties\<close>

subsection \<open>String primitives\<close>

lemma split_comma_not_Nil: "split_comma s \<noteq> []"
  by (induction s) (auto split: list.splits)

lemma set_split_comma: "t \<in> set (split_comma s) \<Longrightarrow> set t \<subseteq> set s"
proof (induction s arbitrary: t)
  case Nil
  then show ?case by simp
next
  case (Cons a s)
  show ?case
  proof (cases "a = CHR '',''")
    case True
    with Cons.prems have "t = [] \<or> t \<in> set (split_comma s)" by simp
    then show ?thesis using Cons.IH by auto
  next
    case False
    obtain t0 ts where sp: "split_comma s = t0 # ts"
      using split_comma_not_Nil by (cases "split_comma s") auto
    with False Cons.prems have "t = a # t0 \<or> t \<in> set ts" by simp
    moreover have "set t0 \<subseteq> set s" using Cons.IH sp by simp
    moreover have "t \<in> set ts \<Longrightarrow> set t \<subseteq> set s" using Cons.IH sp by simp
    ultimately show ?thesis by auto
  qed
qed

lemma set_strip: "set (strip s) \<subseteq> set s"
proof
  fix x assume "x \<in> set (strip s)"
  then have "x \<in> set (dropWhile is_space (rev (dropWhile is_space s)))"
    by (simp add: strip_def)
  then have "x \<in> set (dropWhile is_space s)"
    using set_dropWhileD by fastforce
  then show "x \<in> set s" by (rule set_dropWhileD)
qed

lemma last_dropWhile: "dropWhile P xs \<noteq> [] \<Longrightarrow> last (dropWhile P xs) = last xs"
  by (induction xs) auto

lemma strip_hd: "strip s \<noteq> [] \<Longrightarrow> \<not> is_space (hd (strip s))"
proof -
  assume ne: "strip s \<noteq> []"
  define d where "d = dropWhile is_space s"
  have st: "strip s = rev (dropWhile is_space (rev d))" by (simp add: strip_def d_def)
  from ne st have ne2: "dropWhile is_space (rev d) \<noteq> []" by simp
  then have dne: "d \<noteq> []" by auto
  have "hd (strip s) = last (dropWhile is_space (rev d))"
    using ne2 st by (simp add: hd_rev)
  also have "\<dots> = last (rev d)" using ne2 by (rule last_dropWhile)
  also have "\<dots> = hd d" using dne by (simp add: last_rev)
  finally have "hd (strip s) = hd (dropWhile is_space s)" by (simp add: d_def)
  moreover have "dropWhile is_space s \<noteq> []" using dne by (simp add: d_def)
  ultimately show ?thesis using hd_dropWhile by metis
qed

lemma strip_last: "strip s \<noteq> [] \<Longrightarrow> \<not> is_space (last (strip s))"
proof -
  assume ne: "strip s \<noteq> []"
  define e where "e = rev (dropWhile is_space s)"
  have st: "strip s = rev (dropWhile is_space e)" by (simp add: strip_def e_def)
  from ne st have ne2: "dropWhile is_space e \<noteq> []" by simp
  have "last (strip s) = hd (dropWhile is_space e)" using st ne2 by (simp add: last_rev)
  then show ?thesis using ne2 hd_dropWhile by metis
qed

lemma starts_with_iff: "starts_with needle hay \<longleftrightarrow> (\<exists>post. hay = needle @ post)"
  by (induction needle hay rule: starts_with.induct) auto

lemma str_contains_iff:
  "str_contains needle hay \<longleftrightarrow> (\<exists>pre post. hay = pre @ needle @ post)"
proof (induction hay)
  case Nil
  then show ?case by auto
next
  case (Cons h hs)
  show ?case
  proof
    assume "str_contains needle (h # hs)"
    then consider "starts_with needle (h # hs)" | "str_contains needle hs" by auto
    then show "\<exists>pre post. h # hs = pre @ needle @ post"
    proof cases
      case 1
      then obtain post where "h # hs = needle @ post" using starts_with_iff by blast
      then have "h # hs = [] @ needle @ post" by simp
      then show ?thesis by blast
    next
      case 2
      then obtain pre post where "hs = pre @ needle @ post" using Cons.IH by blast
      then have "h # hs = (h # pre) @ needle @ post" by simp
      then show ?thesis by blast
    qed
  next
    assume "\<exists>pre post. h # hs = pre @ needle @ post"
    then obtain pre post where eq: "h # hs = pre @ needle @ post" by blast
    show "str_contains needle (h # hs)"
    proof (cases pre)
      case Nil
      with eq have "starts_with needle (h # hs)" using starts_with_iff by auto
      then show ?thesis by simp
    next
      case (Cons p ps)
      with eq have "hs = ps @ needle @ post" by simp
      then have "str_contains needle hs" using Cons.IH by blast
      then show ?thesis by simp
    qed
  qed
qed

subsection \<open>Where scoring raises and where it returns\<close>

lemma job_skills_Text: "Skills r = Text s \<Longrightarrow> job_skills r = Inr (map strip (split_comma s))"
  by (simp add: job_skills_def split_cell_def)

lemma job_skills_NaN: "Skills r = NaN \<Longrightarrow> job_skills r = Inl AttributeError"
  by (simp add: job_skills_def split_cell_def)

lemma job_interests_Text:
  "Interests r = Text s \<Longrightarrow> job_interests r = Inr (map strip (split_comma s))"
  by (simp add: job_interests_def split_cell_def)

lemma job_interests_NaN: "Interests r = NaN \<Longrightarrow> job_interests r = Inl AttributeError"
  by (simp add: job_interests_def split_cell_def)

lemma job_skills_Inr_not_Nil: "job_skills r = Inr js \<Longrightarrow> js \<noteq> []"
  by (cases "Skills r") (auto simp: job_skills_def split_cell_def split_comma_not_Nil)

lemma skill_match_pct_Inr:
  "job_skills r = Inr js \<Longrightarrow>
   skill_match_pct u r = Inr (of_nat (card (common_skills u js)) / of_nat (length js) * 100)"
  using job_skills_Inr_not_Nil [of r js] by (simp add: skill_match_pct_def)

lemma skill_match_pct_not_ZeroDivisionError: "skill_match_pct u r \<noteq> Inl ZeroDivisionError"
proof (cases "Skills r")
  case (Text s)
  then show ?thesis using skill_match_pct_Inr [OF job_skills_Text] by simp
next
  case NaN
  then show ?thesis by (simp add: skill_match_pct_def job_skills_NaN)
qed

lemma score_after_penalties_Inr:
  assumes "job_skills r = Inr js" and "job_interests r = Inr ji"
  shows "score_after_penalties u r =
     Inr (of_nat (card (common_skills u js)) / of_nat (length js) * 100
          + 15 * of_nat (card (common_interests u ji))
          - (if math_score u < Min_Math r then 10 else 0)
          - (if code_score u < Min_Code r then 10 else 0))"
  using assms
  by (simp add: score_after_penalties_def skill_match_pct_Inr interest_bonus_def Let_def)

lemma total_score_Inr:
  assumes "job_skills r = Inr js" and "job_interests r = Inr ji"
  shows "total_score u r =
     Inr (of_nat (card (common_skills u js)) / of_nat (length js) * 100
          + 15 * of_nat (card (common_interests u ji))
          - (if math_score u < Min_Math r then 10 else 0)
          - (if code_score u < Min_Code r then 10 else 0)
          + (if personality u \<noteq> ''Ambivert/Any'' \<and> personality u = Personality r
             then 5 else 0))"
  by (simp add: total_score_def score_after_penalties_Inr [OF assms])

lemma no_missing_cell_tokens:
  "no_missing_cell r \<Longrightarrow> \<exists>js ji. job_skills r = Inr js \<and> job_interests r = Inr ji"
  by (cases "Skills r"; cases "Interests r")
     (auto simp: no_missing_cell_def job_skills_Text job_interests_Text)

text \<open>On a row with both cells present the score is returned, and lies between 0 and 100.\<close>

lemma final_score_total:
  "no_missing_cell r \<Longrightarrow> \<exists>s. final_score u r = Inr s \<and> 0 \<le> s \<and> s \<le> 100"
proof -
  assume "no_missing_cell r"
  then obtain js ji where "job_skills r = Inr js" and "job_interests r = Inr ji"
    using no_missing_cell_tokens by blast
  then show ?thesis by (simp add: final_score_def total_score_Inr)
qed

text \<open>What the code computes on such a row.\<close>

lemma final_score_formula:
  assumes "job_skills r = Inr js" and "job_interests r = Inr ji"
  shows "final_score u r =
     Inr (max 0 (min 100
       (of_nat (card (set (selected_skills u) \<inter> set js)) / of_nat (length js) * 100
        + 15 * of_nat (card (set (selected_interests u) \<inter> set ji))
        - (if math_score u < Min_Math r then 10 else 0)
        - (if code_score u < Min_Code r then 10 else 0)
        + (if Personality r \<noteq> ''Ambivert/Any'' \<and> personality u = Personality r
           then 5 else 0))))"
proof -
  have "(personality u \<noteq> ''Ambivert/Any'' \<and> personality u = Personality r)
        = (Personality r \<noteq> ''Ambivert/Any'' \<and> personality u = Personality r)"
    by auto
  then show ?thesis
    by (simp add: final_score_def total_score_Inr [OF assms] common_skills_def
        common_interests_def)
qed

text \<open>A missing cell makes the scoring of the row raise.\<close>

lemma final_score_missing_Skills: "Skills r = NaN \<Longrightarrow> final_score u r = Inl AttributeError"
  by (simp add: final_score_def total_score_def score_after_penalties_def skill_match_pct_def
      job_skills_NaN)

lemma final_score_missing_Interests:
  "Skills r \<noteq> NaN \<Longrightarrow> Interests r = NaN \<Longrightarrow> final_score u r = Inl AttributeError"
proof -
  assume "Skills r \<noteq> NaN" and i: "Interests r = NaN"
  then obtain s where "Skills r = Text s" by (cases "Skills r") auto
  then have "job_skills r = Inr (map strip (split_comma s))" by (rule job_skills_Text)
  then show ?thesis
    using i
    by (simp add: final_score_def total_score_def score_after_penalties_def
        skill_match_pct_Inr interest_bonus_def job_interests_NaN)
qed

subsection \<open>The scoring loop and the analysis\<close>

lemma score_loop_Inr:
  "list_all no_missing_cell rs \<Longrightarrow>
   \<exists>ss. score_loop u rs acc = Inr (acc @ ss)
      \<and> list_all2 (\<lambda>r s. final_score u r = Inr s) rs ss"
proof (induction rs arbitrary: acc)
  case Nil
  then show ?case by simp
next
  case (Cons r rs)
  then have "no_missing_cell r" and rest: "list_all no_missing_cell rs" by simp_all
  then obtain s where s: "final_score u r = Inr s" using final_score_total by blast
  obtain ss where ss: "score_loop u rs (acc @ [s]) = Inr ((acc @ [s]) @ ss)"
    and all: "list_all2 (\<lambda>r s. final_score u r = Inr s) rs ss"
    using Cons.IH [OF rest] by blast
  have "score_loop u (r # rs) acc = Inr (acc @ (s # ss))" using s ss by simp
  moreover have "list_all2 (\<lambda>r s. final_score u r = Inr s) (r # rs) (s # ss)"
    using s all by simp
  ultimately show ?case by blast
qed

lemma score_loop_length:
  "score_loop u rs acc = Inr ss \<Longrightarrow> length ss = length acc + length rs"
  by (induction rs arbitrary: acc) (auto split: sum.splits)

lemma analyze_scores:
  assumes "list_all no_missing_cell (rows df)" and "selected_skills u \<noteq> []"
  shows "\<exists>scores. list_all2 (\<lambda>r s. final_score u r = Inr s) (rows df) scores \<and>
           analyze srt u df =
             (df\<lparr>Final_Score := Some scores\<rparr>, Inr (head3 (srt (zip (rows df) scores))))"
proof -
  obtain scores where loop: "score_loop u (rows df) [] = Inr scores"
    and all: "list_all2 (\<lambda>r s. final_score u r = Inr s) (rows df) scores"
    using score_loop_Inr [OF assms(1), of u "[]"] by auto
  have len: "length scores = length (rows df)" using all by (simp add: list_all2_lengthD)
  have "analyze srt u df =
          (df\<lparr>Final_Score := Some scores\<rparr>, Inr (head3 (srt (zip (rows df) scores))))"
    using assms(2) loop len by (simp add: analyze_def assign_Final_Score_def sort_values_def)
  with all show ?thesis by blast
qed

text \<open>Whatever the rows, an analysis either returns the frame it was given, or the frame with
  the score column assigned.\<close>

lemma analyze_frame:
  "fst (analyze srt u df) = df
   \<or> (\<exists>scores. fst (analyze srt u df) = df\<lparr>Final_Score := Some scores\<rparr>)"
proof (cases "selected_skills u = []")
  case True
  then show ?thesis by (simp add: analyze_def)
next
  case False
  show ?thesis
  proof (cases "score_loop u (rows df) []")
    case (Inl e)
    then show ?thesis using False by (simp add: analyze_def)
  next
    case (Inr scores)
    then have "length scores = length (rows df)" using score_loop_length by fastforce
    then have "fst (analyze srt u df) = df\<lparr>Final_Score := Some scores\<rparr>"
      using False Inr by (simp add: analyze_def assign_Final_Score_def sort_values_def)
    then show ?thesis by blast
  qed
qed

subsection \<open>The library's sort\<close>

lemma sorted_wrt_rev_sort_key:
  "sorted_wrt (\<lambda>a b. f b \<le> f a) (rev (sort_key f xs))"
proof -
  have "sorted (map f (sort_key f xs))" by (rule sorted_sort_key)
  then have "sorted_wrt (\<lambda>a b. f a \<le> f b) (sort_key f xs)" by (simp only: sorted_map)
  then show ?thesis by (simp only: sorted_wrt_rev)
qed

lemma mset_stable_descending: "mset (stable_descending xs) = mset xs"
  by (simp add: stable_descending_def)

lemma sorted_stable_descending:
  "sorted_wrt (\<lambda>a b. snd b \<le> snd a) (stable_descending xs)"
  unfolding stable_descending_def by (rule sorted_wrt_rev_sort_key)


subsection \<open>Tokens of the vocabulary and of the scoring path\<close>

lemma empty_not_in_all_skills: "all_skills df = Inr vocab \<Longrightarrow> [] \<notin> set vocab"
  by (auto simp: all_skills_def Let_def split: sum.splits)

text \<open>Every vocabulary term is non-empty, trimmed and free of the quote character.\<close>

lemma all_skills_tokens_clean:
  assumes "all_skills df = Inr vocab"
  shows "\<forall>t\<in>set vocab.
      t \<noteq> [] \<and> \<not> is_space (hd t) \<and> \<not> is_space (last t) \<and> CHR 0x22 \<notin> set t"
proof
  fix t assume "t \<in> set vocab"
  then obtain texts s
    where s: "s \<in> set (split_comma (remove_quotes (join_comma texts)))"
    and t: "t = strip s" and ne: "strip s \<noteq> []"
    using assms by (auto simp: all_skills_def Let_def split: sum.splits)
  have "set s \<subseteq> set (remove_quotes (join_comma texts))"
    using s by (rule set_split_comma)
  then have "CHR 0x22 \<notin> set s" by (auto simp: remove_quotes_def)
  then have "CHR 0x22 \<notin> set t" using set_strip t by blast
  then show "t \<noteq> [] \<and> \<not> is_space (hd t) \<and> \<not> is_space (last t) \<and> CHR 0x22 \<notin> set t"
    using t ne strip_hd strip_last by simp
qed

text \<open>Every token of the scoring path is trimmed.\<close>

lemma job_skills_trimmed:
  assumes "job_skills r = Inr js"
  shows "\<forall>t\<in>set js. t = [] \<or> (\<not> is_space (hd t) \<and> \<not> is_space (last t))"
  using assms strip_hd strip_last
  by (cases "Skills r") (auto simp: job_skills_def split_cell_def)

lemma job_interests_trimmed:
  assumes "job_interests r = Inr ji"
  shows "\<forall>t\<in>set ji. t = [] \<or> (\<not> is_space (hd t) \<and> \<not> is_space (last t))"
  using assms strip_hd strip_last
  by (cases "Interests r") (auto simp: job_interests_def split_cell_def)

subsection \<open>The matching loop\<close>

lemma match_loop_filter:
  "match_loop t vs acc = acc @ filter (\<lambda>s. str_contains (lower s) t) vs"
  by (induction vs arbitrary: acc) auto

text \<open>The known limitation: \<^verbatim>\<open>Go\<close> is found inside \<^verbatim>\<open>Google\<close>.\<close>

lemma match_skills_example:
  "match_skills ''Senior python developer at Google'' [''Go'', ''Java'', ''Python'']
     = [''Go'', ''Python'']"
  by code_simp

subsection \<open>The worked examples of the specification\<close>

lemma example_score_70:
  "final_score user_a job_a = Inr 70 \<and> missing_skills user_a job_a = Inr [''SQL'']"
  by code_simp

lemma example_score_60: "final_score (user_a\<lparr>math_score := 40\<rparr>) job_a = Inr 60"
  by code_simp

section \<open>The claims\<close>

subsection \<open>C1: the final score\<close>

text \<open>
  C1. The claim gives the skill percentage as the number of matched skills over the number
  of required skills, both sizes of sets. Line 98 counts the matched skills as a set, and
  line 99 divides by the length of the list of tokens. On \<open>dup_job\<close>, whose cell lists
  \<^verbatim>\<open>Python, Python, SQL\<close>, a user with both skills gets 2 of 3, a score of 200/3, where the
  claimed formula gives 2 of 2, a score of 100.
\<close>

theorem repeated_skill_divergence:
  "job_skills dup_job = Inr [''Python'', ''Python'', ''SQL'']
   \<and> final_score user_two dup_job = Inr (200 / 3)
   \<and> spec_final_score user_two dup_job = 100"
  by code_simp

subsection \<open>C2: the ranking\<close>



text \<open>The four-row catalog gives the two rows of score 70 in catalog order, then the row of
  score 100/3; the row of score 30 is left out.\<close>

lemma top3_example:
  "snd (analyze stable_descending user_a (load_data [job_c, job_b, dup_job, job_a]))
     = Inr [(job_b, 70), (job_a, 70), (dup_job, 100 / 3)]"
  by code_simp


subsection \<open>C3: what an analysis writes\<close>

text \<open>
  C3, as amended. An analysis changes no loaded column of any catalog row, nor the number or
  the order of the rows. It leaves \<^verbatim>\<open>df\<close> as it was or assigns its \<^verbatim>\<open>Final_Score\<close> column, and
  nothing else. The outcome of an analysis does not depend on a \<^verbatim>\<open>Final_Score\<close> column left
  by an earlier one, so the rows can be scored again and again.
\<close>

theorem analyze_writes_only_Final_Score:
  "rows (fst (analyze srt u df)) = rows df
   \<and> (fst (analyze srt u df) = df
        \<or> (\<exists>scores. fst (analyze srt u df) = df\<lparr>Final_Score := Some scores\<rparr>))
   \<and> snd (analyze srt u (df\<lparr>Final_Score := old\<rparr>)) = snd (analyze srt u df)"
proof (intro conjI)
  show "rows (fst (analyze srt u df)) = rows df"
    by (simp add: analyze_def assign_Final_Score_def sort_values_def split: sum.splits)
  show "fst (analyze srt u df) = df
        \<or> (\<exists>scores. fst (analyze srt u df) = df\<lparr>Final_Score := Some scores\<rparr>)"
    by (rule analyze_frame)
  show "snd (analyze srt u (df\<lparr>Final_Score := old\<rparr>)) = snd (analyze srt u df)"
    by (simp add: analyze_def assign_Final_Score_def sort_values_def split: sum.splits)
qed

text \<open>C3 as stated fails: after one analysis the loaded frame carries a score column.\<close>

theorem score_column_counterexample:
  "Final_Score (load_data [job_a]) = None
   \<and> Final_Score (fst (analyze stable_descending user_a (load_data [job_a]))) = Some [70]
   \<and> fst (analyze stable_descending user_a (load_data [job_a])) \<noteq> load_data [job_a]"
  by code_simp

subsection \<open>C4: no skill selected\<close>

text \<open>
  C4. When the profile has no selected skill, the analysis shows the error and does nothing
  else: no row is scored, \<^verbatim>\<open>df\<close> is unchanged, and there is no result list. This holds whatever
  the catalog and whatever the sort.
\<close>

theorem analyze_empty_selection:
  "selected_skills u = [] \<Longrightarrow> analyze srt u df = (df, Inl EmptySelectionError)"
  by (simp add: analyze_def)

theorem analyze_empty_selection_witness:
  "selected_skills user_none = []
   \<and> analyze stable_descending user_none (load_data [job_a, job_b])
       = (load_data [job_a, job_b], Inl EmptySelectionError)"
proof -
  have h: "selected_skills user_none = []" by (simp add: user_none_def)
  show ?thesis using h analyze_empty_selection [OF h] by simp
qed

subsection \<open>C5: a row with no required skill\<close>

text \<open>
  C5, as amended. The skill percentage never raises \<^verbatim>\<open>ZeroDivisionError\<close>: a skills cell that
  is present splits into at least one token. When the skills cell is present, each of its
  tokens is empty, and the selected skills are terms of the vocabulary (the options of the
  multiselect), the skill percentage is exactly 0. When the skills cell is missing, the
  skill percentage is not computed: line 97 raises \<^verbatim>\<open>AttributeError\<close>.
\<close>

theorem no_required_skill_scores_zero:
  "skill_match_pct u r \<noteq> Inl ZeroDivisionError
   \<and> (Skills r = NaN \<longrightarrow> skill_match_pct u r = Inl AttributeError)
   \<and> (\<forall>s vocab. Skills r = Text s \<longrightarrow> all_skills df = Inr vocab \<longrightarrow>
        set (selected_skills u) \<subseteq> set vocab \<longrightarrow>
        (\<forall>t\<in>set (map strip (split_comma s)). t = []) \<longrightarrow>
        skill_match_pct u r = Inr 0)"
proof (intro conjI impI allI)
  show "skill_match_pct u r \<noteq> Inl ZeroDivisionError"
    by (rule skill_match_pct_not_ZeroDivisionError)
  show "skill_match_pct u r = Inl AttributeError" if "Skills r = NaN"
    using that by (simp add: skill_match_pct_def job_skills_NaN)
  show "skill_match_pct u r = Inr 0"
    if cell: "Skills r = Text s" and voc: "all_skills df = Inr vocab"
      and sel: "set (selected_skills u) \<subseteq> set vocab"
      and blank: "\<forall>t\<in>set (map strip (split_comma s)). t = []"
    for s vocab
  proof -
    have js: "job_skills r = Inr (map strip (split_comma s))"
      using cell by (rule job_skills_Text)
    have "[] \<notin> set (selected_skills u)"
      using sel empty_not_in_all_skills [OF voc] by blast
    then have "common_skills u (map strip (split_comma s)) = {}"
      using blank by (auto simp: common_skills_def)
    then show ?thesis by (simp add: skill_match_pct_Inr [OF js])
  qed
qed

theorem no_required_skill_scores_zero_witness:
  "Skills blank_job = Text '' ''
   \<and> all_skills (load_data [job_a, blank_job]) = Inr [''Python'', ''SQL'']
   \<and> set (selected_skills user_two) \<subseteq> set [''Python'', ''SQL'']
   \<and> map strip (split_comma '' '') = [[]]
   \<and> skill_match_pct user_two blank_job = Inr 0"
proof -
  have h1: "Skills blank_job = Text '' ''" by (simp add: blank_job_def)
  have h2: "all_skills (load_data [job_a, blank_job]) = Inr [''Python'', ''SQL'']"
    by code_simp
  have h3: "set (selected_skills user_two) \<subseteq> set [''Python'', ''SQL'']"
    by (simp add: user_two_def)
  have v: "map strip (split_comma '' '') = [[]]" by code_simp
  then have h4: "\<forall>t\<in>set (map strip (split_comma '' '')). t = []" by simp
  have "skill_match_pct user_two blank_job = Inr 0"
    using no_required_skill_scores_zero [of user_two blank_job "load_data [job_a, blank_job]"]
      h1 h2 h3 h4 by blast
  then show ?thesis using h1 h2 h3 v by blast
qed

text \<open>C5 as stated fails twice. A row whose skills field is empty in the file is not scored
  as 0: line 97 raises, and line 21 raises before that, when the vocabulary is built. And
  for a profile that selects the empty string, a blank skills cell scores 100.\<close>

theorem missing_skills_cell_counterexample:
  "skill_match_pct user_two no_skills_job = Inl AttributeError
   \<and> all_skills (load_data [job_a, no_skills_job]) = Inl TypeError
   \<and> skill_match_pct user_blank blank_job = Inr 100"
  by code_simp

subsection \<open>C6: the personality bonus\<close>

text \<open>
  C6. The total before clamping is the total after the penalties plus 5 exactly when the
  row's personality is not \<^verbatim>\<open>Ambivert/Any\<close> and the user's personality equals it, and plus 0
  otherwise. A user whose personality is \<^verbatim>\<open>Ambivert/Any\<close> gets no bonus for any row. (When a
  cell is missing there is no total: the error is passed on.)
\<close>

theorem personality_bonus_rule:
  "(\<forall>t. score_after_penalties u r = Inr t \<longrightarrow>
      total_score u r =
        Inr (t + (if Personality r \<noteq> ''Ambivert/Any'' \<and> personality u = Personality r
                  then 5 else 0)))
   \<and> (\<forall>e. score_after_penalties u r = Inl e \<longrightarrow> total_score u r = Inl e)
   \<and> (personality u = ''Ambivert/Any'' \<longrightarrow> total_score u r = score_after_penalties u r)
   \<and> (no_missing_cell r \<longrightarrow>
        (\<exists>t. score_after_penalties u r = Inr t
           \<and> total_score u r =
               Inr (t + (if Personality r \<noteq> ''Ambivert/Any'' \<and> personality u = Personality r
                         then 5 else 0))
           \<and> (personality u = ''Ambivert/Any'' \<longrightarrow> total_score u r = Inr t)))"
proof -
  have eq: "(personality u \<noteq> ''Ambivert/Any'' \<and> personality u = Personality r)
        = (Personality r \<noteq> ''Ambivert/Any'' \<and> personality u = Personality r)"
    by auto
  have a: "\<forall>t. score_after_penalties u r = Inr t \<longrightarrow>
      total_score u r =
        Inr (t + (if Personality r \<noteq> ''Ambivert/Any'' \<and> personality u = Personality r
                  then 5 else 0))"
    using eq by (simp add: total_score_def)
  have b: "\<forall>e. score_after_penalties u r = Inl e \<longrightarrow> total_score u r = Inl e"
    by (simp add: total_score_def)
  have c: "personality u = ''Ambivert/Any'' \<longrightarrow> total_score u r = score_after_penalties u r"
    by (simp add: total_score_def split: sum.splits)
  have d: "\<exists>t. score_after_penalties u r = Inr t" if nm: "no_missing_cell r"
  proof -
    obtain js ji where "job_skills r = Inr js" and "job_interests r = Inr ji"
      using nm no_missing_cell_tokens by blast
    then show ?thesis by (simp add: score_after_penalties_Inr)
  qed
  have e: "no_missing_cell r \<longrightarrow>
        (\<exists>t. score_after_penalties u r = Inr t
           \<and> total_score u r =
               Inr (t + (if Personality r \<noteq> ''Ambivert/Any'' \<and> personality u = Personality r
                         then 5 else 0))
           \<and> (personality u = ''Ambivert/Any'' \<longrightarrow> total_score u r = Inr t))"
  proof
    assume "no_missing_cell r"
    then obtain t where t: "score_after_penalties u r = Inr t" using d by blast
    have "total_score u r =
            Inr (t + (if Personality r \<noteq> ''Ambivert/Any'' \<and> personality u = Personality r
                      then 5 else 0))"
      using a t by blast
    moreover have "personality u = ''Ambivert/Any'' \<longrightarrow> total_score u r = Inr t"
      using c t by simp
    ultimately show "\<exists>t. score_after_penalties u r = Inr t
           \<and> total_score u r =
               Inr (t + (if Personality r \<noteq> ''Ambivert/Any'' \<and> personality u = Personality r
                         then 5 else 0))
           \<and> (personality u = ''Ambivert/Any'' \<longrightarrow> total_score u r = Inr t)"
      using t by blast
  qed
  from a b c e show ?thesis by (intro conjI)
qed

text \<open>The user and the row both have \<^verbatim>\<open>Ambivert/Any\<close>: equal personalities, no bonus.\<close>

theorem personality_bonus_rule_witness:
  "no_missing_cell blank_job
   \<and> personality user_two = ''Ambivert/Any''
   \<and> Personality blank_job = personality user_two
   \<and> score_after_penalties user_two blank_job = Inr 0
   \<and> total_score user_two blank_job = Inr 0"
proof -
  have n: "no_missing_cell blank_job" by code_simp
  have h: "personality user_two = ''Ambivert/Any''" by (simp add: user_two_def)
  have s: "score_after_penalties user_two blank_job = Inr 0" by code_simp
  have p: "Personality blank_job = personality user_two"
    by (simp add: user_two_def blank_job_def)
  have "total_score user_two blank_job = score_after_penalties user_two blank_job"
    using personality_bonus_rule [of user_two blank_job] h by blast
  then show ?thesis using n h s p by simp
qed

subsection \<open>C7: matched and missing skills\<close>

text \<open>
  C7. On the list of the row's skills that line 97 (and again line 142) computes, the
  matched skills and the missing skills together are the row's required skills, and no
  skill is both. The missing skills are the row's tokens in the order the row lists them,
  without those the user selected. The list exists whenever the skills cell is present.
\<close>

theorem matched_and_missing_partition:
  "(\<forall>js. job_skills r = Inr js \<longrightarrow>
       common_skills u js \<union> set (missing u js) = set js
     \<and> common_skills u js \<inter> set (missing u js) = {}
     \<and> missing u js = filter (\<lambda>s. s \<notin> set (selected_skills u)) js
     \<and> missing_skills u r = Inr (missing u js))
   \<and> (\<forall>s. Skills r = Text s \<longrightarrow> job_skills r = Inr (map strip (split_comma s)))"
  by (auto simp: common_skills_def missing_def missing_skills_def job_skills_Text)

theorem matched_and_missing_partition_witness:
  "Skills job_a = Text ''Python, SQL''
   \<and> job_skills job_a = Inr [''Python'', ''SQL'']
   \<and> common_skills user_a [''Python'', ''SQL''] = {''Python''}
   \<and> missing_skills user_a job_a = Inr [''SQL'']
   \<and> common_skills user_a [''Python'', ''SQL''] \<union> set (missing user_a [''Python'', ''SQL''])
       = set [''Python'', ''SQL'']"
proof -
  have c: "Skills job_a = Text ''Python, SQL''" by (simp add: job_a_def)
  have j: "job_skills job_a = Inr [''Python'', ''SQL'']" by code_simp
  have k: "common_skills user_a [''Python'', ''SQL''] = {''Python''}"
    by (auto simp: common_skills_def user_a_def)
  have m: "missing user_a [''Python'', ''SQL''] = [''SQL'']"
    by (simp add: missing_def user_a_def)
  from matched_and_missing_partition [of job_a user_a] j
  have "common_skills user_a [''Python'', ''SQL''] \<union> set (missing user_a [''Python'', ''SQL''])
          = set [''Python'', ''SQL'']"
    and "missing_skills user_a job_a = Inr (missing user_a [''Python'', ''SQL''])"
    by blast+
  then show ?thesis using c j k m by simp
qed

subsection \<open>C8: cleaning of tokens\<close>

text \<open>
  C8. Every token is trimmed, and the vocabulary's tokens have the quote character removed
  (\<open>all_skills_tokens_clean\<close>, \<open>job_skills_trimmed\<close>). The tokens used for scoring keep it:
  for the cell \<^verbatim>\<open>"Python", SQL\<close> the vocabulary offers \<^verbatim>\<open>Python\<close> and \<^verbatim>\<open>SQL\<close>, the scoring
  path compares with \<^verbatim>\<open>"Python"\<close> and \<^verbatim>\<open>SQL\<close>, and a user who selects both vocabulary terms
  matches one skill of two.
\<close>

theorem scoring_keeps_quotes:
  "job_skills quoted_job = Inr [''\"Python\"'', ''SQL'']
   \<and> all_skills (load_data [quoted_job]) = Inr [''Python'', ''SQL'']
   \<and> skill_match_pct user_two quoted_job = Inr 50"
  by code_simp

subsection \<open>C9: matching skills in a resume\<close>

text \<open>
  C9. The resume text is lower-cased once; the result is exactly the vocabulary terms whose
  lower-cased form occurs somewhere in the lower-cased text, in the vocabulary's order.
\<close>

theorem match_skills_filter:
  "match_skills resume_text vocabulary =
     filter (\<lambda>term. \<exists>pre post. lower resume_text = pre @ lower term @ post) vocabulary"
  by (simp add: match_skills_def match_loop_filter str_contains_iff)

subsection \<open>C10: a catalog of fewer than three rows\<close>

text \<open>
  C10, as amended. For a catalog of fewer than three rows in which no \<^verbatim>\<open>Skills\<close> and no
  \<^verbatim>\<open>Interests\<close> cell is missing, and a profile with at least one selected skill, the analysis
  raises nothing and returns every row of the catalog with its score, in descending order
  of score.
\<close>

theorem analyze_small_catalog:
  assumes "list_all no_missing_cell (rows df)" and "selected_skills u \<noteq> []"
    and "length (rows df) < 3"
  shows "\<exists>scores top.
           list_all2 (\<lambda>r s. final_score u r = Inr s) (rows df) scores
         \<and> snd (analyze stable_descending u df) = Inr top
         \<and> mset top = mset (zip (rows df) scores)
         \<and> mset (map fst top) = mset (rows df)
         \<and> sorted_wrt (\<lambda>a b. snd b \<le> snd a) top"
proof -
  obtain scores where all: "list_all2 (\<lambda>r s. final_score u r = Inr s) (rows df) scores"
    and an: "analyze stable_descending u df =
               (df\<lparr>Final_Score := Some scores\<rparr>,
                Inr (head3 (stable_descending (zip (rows df) scores))))"
    using analyze_scores [OF assms(1) assms(2)] by blast
  define sorted_df where "sorted_df = stable_descending (zip (rows df) scores)"
  have perm: "mset sorted_df = mset (zip (rows df) scores)"
    unfolding sorted_df_def by (rule mset_stable_descending)
  have desc: "sorted_wrt (\<lambda>a b. snd b \<le> snd a) sorted_df"
    unfolding sorted_df_def by (rule sorted_stable_descending)
  have len: "length scores = length (rows df)" using all by (simp add: list_all2_lengthD)
  have "length sorted_df = length (zip (rows df) scores)"
    using perm by (rule mset_eq_length)
  then have "length sorted_df < 3" using len assms(3) by simp
  then have t: "head3 sorted_df = sorted_df" by (simp add: head3_def)
  have "mset (map fst sorted_df) = image_mset fst (mset (zip (rows df) scores))"
    using perm by (metis mset_map)
  also have "\<dots> = mset (map fst (zip (rows df) scores))" by simp
  also have "\<dots> = mset (rows df)" using len by simp
  finally have rowsperm: "mset (map fst sorted_df) = mset (rows df)" .
  have "snd (analyze stable_descending u df) = Inr sorted_df"
    using an t by (simp add: sorted_df_def)
  then show ?thesis using all perm rowsperm desc by blast
qed

theorem analyze_small_catalog_witness:
  "list_all no_missing_cell (rows (load_data [job_c, job_a]))
   \<and> selected_skills user_two \<noteq> []
   \<and> length (rows (load_data [job_c, job_a])) < 3
   \<and> (\<exists>scores top.
         list_all2 (\<lambda>r s. final_score user_two r = Inr s) (rows (load_data [job_c, job_a])) scores
       \<and> snd (analyze stable_descending user_two (load_data [job_c, job_a])) = Inr top
       \<and> mset top = mset (zip (rows (load_data [job_c, job_a])) scores)
       \<and> mset (map fst top) = mset (rows (load_data [job_c, job_a]))
       \<and> sorted_wrt (\<lambda>a b. snd b \<le> snd a) top)"
proof -
  have h1: "list_all no_missing_cell (rows (load_data [job_c, job_a]))" by code_simp
  have h2: "selected_skills user_two \<noteq> []" by (simp add: user_two_def)
  have h3: "length (rows (load_data [job_c, job_a])) < 3" by (simp add: load_data_def)
  show ?thesis
    using h1 h2 h3 analyze_small_catalog [OF h1 h2 h3] by blast
qed

lemma small_catalog_example:
  "snd (analyze stable_descending user_two (load_data [job_c, job_a]))
     = Inr [(job_a, 100), (job_c, 30)]"
  by code_simp

text \<open>C10 as stated fails on a one-row catalog whose interests field is empty: the vocabulary
  is built, and the analysis raises \<^verbatim>\<open>AttributeError\<close> at line 102.\<close>

theorem small_catalog_missing_interests_counterexample:
  "length (rows (load_data [no_interests_job])) = 1
   \<and> all_skills (load_data [no_interests_job]) = Inr [''Python'', ''SQL'']
   \<and> selected_skills user_two = [''Python'', ''SQL'']
   \<and> analyze stable_descending user_two (load_data [no_interests_job])
       = (load_data [no_interests_job], Inl AttributeError)"
  by code_simp

end
